theory Spec2Isabelle
  imports Complex_Main "HOL-Library.Sublist" "HOL-Library.AList"
begin

section \<open>JavaScript values\<close>

text \<open>
  The fragment of JavaScript values that the modelled code inspects: \<open>undefined\<close>,
  \<open>null\<close>, booleans, integral numbers, strings, plain objects (own properties in
  insertion order) and arrays.
\<close>

datatype jsval =
    JUndefined
  | JNull
  | JBool bool
  | JNum int
  | JStr string
  | JObj "(string \<times> jsval) list"
  | JArr "jsval list"

text \<open>Truthiness (\<open>ToBoolean\<close>): what \<open>v || w\<close>, \<open>v && w\<close> and \<open>if (v)\<close> test.\<close>

fun truthy :: "jsval \<Rightarrow> bool" where
  "truthy JUndefined = False"
| "truthy JNull = False"
| "truthy (JBool b) = b"
| "truthy (JNum n) = (n \<noteq> 0)"
| "truthy (JStr s) = (s \<noteq> [])"
| "truthy (JObj ps) = True"
| "truthy (JArr vs) = True"

text \<open>A thrown value: an \<open>Error\<close> instance with its message, or any other value.\<close>

datatype exn = Error string | Thrown jsval

text \<open>Decimal rendering of a natural number, as a template literal prints it.\<close>

fun digit_char :: "nat \<Rightarrow> char" where
  "digit_char n = char_of (48 + n)"

fun decimal :: "nat \<Rightarrow> string" where
  "decimal n = (if n < 10 then [digit_char n] else decimal (n div 10) @ [digit_char (n mod 10)])"

declare decimal.simps [simp del]

section \<open>Field renderer (Field.tsx)\<close>

text \<open>
  A field configuration as the renderer and the form builder receive it at run time: an
  object whose \<open>type\<close> is a string. \<open>required\<close> and \<open>disabled\<close> are optional booleans,
  read only through their truthiness, so absent is \<open>False\<close>. The placeholder and the
  attributes of single variants (bounds, rows, options, default check) are handed to the
  widget unread by the code modelled here, and are left out.
\<close>

record FieldConfig =
  f_type :: string
  f_name :: string
  f_label :: string
  f_required :: bool
  f_disabled :: bool

text \<open>The element a field component returns: the component and the props it is given.\<close>

datatype widget =
    TextField FieldConfig bool
  | EmailField FieldConfig bool
  | PasswordField FieldConfig bool
  | NumberField FieldConfig bool
  | TextareaField FieldConfig bool
  | SelectField FieldConfig bool
  | CheckboxField FieldConfig bool
  | RadioField FieldConfig bool

text \<open>\<open>Field\<close>: the switch over \<open>config.type\<close>; \<open>None\<close> is the \<open>null\<close> of the default case.\<close>

definition Field :: "FieldConfig \<Rightarrow> bool \<Rightarrow> widget option" where
  "Field config disabled =
     (if f_type config = ''text'' then Some (TextField config disabled)
      else if f_type config = ''email'' then Some (EmailField config disabled)
      else if f_type config = ''password'' then Some (PasswordField config disabled)
      else if f_type config = ''number'' then Some (NumberField config disabled)
      else if f_type config = ''textarea'' then Some (TextareaField config disabled)
      else if f_type config = ''select'' then Some (SelectField config disabled)
      else if f_type config = ''checkbox'' then Some (CheckboxField config disabled)
      else if f_type config = ''radio'' then Some (RadioField config disabled)
      else None)"

text \<open>The eight members of the \<open>FieldType\<close> union (types.ts).\<close>

definition FieldType :: "string set" where
  "FieldType = {''text'', ''email'', ''password'', ''number'', ''textarea'', ''select'',
                ''checkbox'', ''radio''}"

section \<open>Form builder (FormBuilder.tsx)\<close>

subsection \<open>Form data and the numeric parse\<close>

text \<open>
  \<open>FormData.get(name)\<close> returns the first entry of that name, a string or a \<open>File\<close>, or
  \<open>null\<close> when there is none; \<open>None\<close> stands for \<open>null\<close>.
\<close>

datatype FormDataEntryValue = EntryString string | EntryFile

type_synonym FormData = "(string \<times> FormDataEntryValue) list"

definition formData_get :: "FormData \<Rightarrow> string \<Rightarrow> FormDataEntryValue option" where
  "formData_get formData n = map_of formData n"

text \<open>\<open>value ? \<dots> : \<dots>\<close> and \<open>value && \<dots>\<close> on such an entry: null and the empty string are falsy.\<close>

fun entry_truthy :: "FormDataEntryValue option \<Rightarrow> bool" where
  "entry_truthy None = False"
| "entry_truthy (Some (EntryString s)) = (s \<noteq> [])"
| "entry_truthy (Some EntryFile) = True"

text \<open>
  A JavaScript number, as far as the code can tell numbers apart: \<open>NaN\<close>, the two
  infinities, and a finite value, kept as the exact mathematical value of the literal
  (the rounding to a double, which never yields \<open>NaN\<close>, is left out).
\<close>

datatype number = NaN | PosInfinity | NegInfinity | Finite rat

text \<open>
  \<open>Number(s)\<close> on a string is \<open>StringToNumber\<close> of ECMA-262: the string, with white space
  and line terminators stripped at both ends, must be empty (giving 0) or match
  \<open>StrNumericLiteral\<close>; anything else is \<open>NaN\<close>. Code units are the 8-bit characters here.
\<close>

definition StrWhiteSpaceChar :: "char \<Rightarrow> bool" where
  "StrWhiteSpaceChar c = ((of_char c :: nat) \<in> {9, 10, 11, 12, 13, 32, 160})"

definition trim :: "string \<Rightarrow> string" where
  "trim s = rev (dropWhile StrWhiteSpaceChar (rev (dropWhile StrWhiteSpaceChar s)))"

definition digit_in :: "nat \<Rightarrow> char \<Rightarrow> nat option" where
  "digit_in base c =
     (let n = (of_char c :: nat);
          v = (if 48 \<le> n \<and> n \<le> 57 then Some (n - 48)
               else if 97 \<le> n \<and> n \<le> 102 then Some (n - 87)
               else if 65 \<le> n \<and> n \<le> 70 then Some (n - 55)
               else None)
      in case v of None \<Rightarrow> None | Some d \<Rightarrow> if d < base then Some d else None)"

definition is_digit :: "char \<Rightarrow> bool" where
  "is_digit c = (digit_in 10 c \<noteq> None)"

definition digits_value :: "nat \<Rightarrow> string \<Rightarrow> nat" where
  "digits_value base ds = foldl (\<lambda>a c. base * a + (case digit_in base c of None \<Rightarrow> 0 | Some d \<Rightarrow> d)) 0 ds"

definition parse_digits :: "nat \<Rightarrow> string \<Rightarrow> nat option" where
  "parse_digits base ds =
     (if ds \<noteq> [] \<and> list_all (\<lambda>c. digit_in base c \<noteq> None) ds
      then Some (digits_value base ds) else None)"

text \<open>\<open>ExponentPart\<close>, optional: \<open>e\<close> or \<open>E\<close>, an optional sign, decimal digits.\<close>

fun SignedInteger :: "string \<Rightarrow> int option" where
  "SignedInteger (c # r) =
     (if c = CHR ''+'' then map_option int (parse_digits 10 r)
      else if c = CHR ''-'' then map_option (\<lambda>n. - int n) (parse_digits 10 r)
      else map_option int (parse_digits 10 (c # r)))"
| "SignedInteger [] = None"

fun ExponentPart_opt :: "string \<Rightarrow> int option" where
  "ExponentPart_opt [] = Some 0"
| "ExponentPart_opt (c # r) = (if c = CHR ''e'' \<or> c = CHR ''E'' then SignedInteger r else None)"

definition scale10 :: "nat \<Rightarrow> int \<Rightarrow> rat" where
  "scale10 m e = (if 0 \<le> e then of_nat m * 10 ^ nat e else of_nat m / 10 ^ nat (- e))"

definition StrUnsignedDecimalLiteral :: "string \<Rightarrow> number" where
  "StrUnsignedDecimalLiteral s =
     (if s = ''Infinity'' then PosInfinity
      else
        let ip = takeWhile is_digit s;
            r1 = dropWhile is_digit s;
            has_dot = (r1 \<noteq> [] \<and> hd r1 = CHR ''.'');
            fp = (if has_dot then takeWhile is_digit (tl r1) else []);
            r2 = (if has_dot then dropWhile is_digit (tl r1) else r1)
        in if ip = [] \<and> fp = [] then NaN
           else case ExponentPart_opt r2 of
                  None \<Rightarrow> NaN
                | Some e \<Rightarrow> Finite (scale10 (digits_value 10 (ip @ fp)) (e - int (length fp))))"

fun negate :: "number \<Rightarrow> number" where
  "negate NaN = NaN"
| "negate PosInfinity = NegInfinity"
| "negate NegInfinity = PosInfinity"
| "negate (Finite q) = Finite (- q)"

fun StrDecimalLiteral :: "string \<Rightarrow> number" where
  "StrDecimalLiteral (c # r) =
     (if c = CHR ''+'' then StrUnsignedDecimalLiteral r
      else if c = CHR ''-'' then negate (StrUnsignedDecimalLiteral r)
      else StrUnsignedDecimalLiteral (c # r))"
| "StrDecimalLiteral [] = NaN"

definition radix_of_prefix :: "string \<Rightarrow> nat option" where
  "radix_of_prefix s =
     (if take 2 s = ''0x'' \<or> take 2 s = ''0X'' then Some 16
      else if take 2 s = ''0o'' \<or> take 2 s = ''0O'' then Some 8
      else if take 2 s = ''0b'' \<or> take 2 s = ''0B'' then Some 2
      else None)"

definition StrNumericLiteral :: "string \<Rightarrow> number" where
  "StrNumericLiteral s =
     (case radix_of_prefix s of
        Some base \<Rightarrow> (case parse_digits base (drop 2 s) of
                        None \<Rightarrow> NaN | Some n \<Rightarrow> Finite (of_nat n))
      | None \<Rightarrow> StrDecimalLiteral s)"

definition StringToNumber :: "string \<Rightarrow> number" where
  "StringToNumber s = (if trim s = [] then Finite 0 else StrNumericLiteral (trim s))"

text \<open>\<open>Number(value)\<close> on a form entry; a \<open>File\<close> converts through the string \<open>[object File]\<close>.\<close>

fun Number :: "FormDataEntryValue \<Rightarrow> number" where
  "Number (EntryString s) = StringToNumber s"
| "Number EntryFile = NaN"

text \<open>\<open>isNaN(numValue)\<close>, where \<open>numValue\<close> is a number or \<open>undefined\<close> (\<open>None\<close>).\<close>

fun isNaN :: "number option \<Rightarrow> bool" where
  "isNaN None = True"
| "isNaN (Some n) = (n = NaN)"

subsection \<open>handleSubmit\<close>

text \<open>The values put into the \<open>values\<close> object.\<close>

datatype formvalue = VUndefined | VBool bool | VNumber number | VString string

text \<open>
  The \<open>values\<close> object: its string keys in insertion order; assigning to a key that is
  there keeps its place (\<open>AList.update\<close>).
\<close>

type_synonym formvalues = "(string \<times> formvalue) list"

text \<open>\<open>typeof value === 'string'\<close> and the string itself.\<close>

fun is_string :: "FormDataEntryValue option \<Rightarrow> bool" where
  "is_string (Some (EntryString s)) = True"
| "is_string _ = False"

fun the_string :: "FormDataEntryValue option \<Rightarrow> string" where
  "the_string (Some (EntryString s)) = s"
| "the_string _ = []"

text \<open>The message of the error thrown for a field: its label, or its name when the label is empty.\<close>

definition required_message :: "FieldConfig \<Rightarrow> string" where
  "required_message field =
     (if f_label field \<noteq> [] then f_label field else f_name field) @ '' is required''"

text \<open>The body of the loop for one field: the value to store, or the error thrown.\<close>

definition field_value :: "FieldConfig \<Rightarrow> FormDataEntryValue option \<Rightarrow> exn + formvalue" where
  "field_value field v =
     (if f_type field = ''checkbox'' then
        Inr (VBool (v = Some (EntryString ''on'') \<or> v = Some (EntryString ''true'')))
      else if f_type field = ''number'' then
        (let numValue = (if entry_truthy v then Some (Number (the v)) else None)
         in Inr (if \<not> isNaN numValue then VNumber (the numValue) else VUndefined))
      else
        (if entry_truthy v \<and> is_string v then Inr (VString (the_string v))
         else if f_required field then Inl (Error (required_message field))
         else Inr VUndefined))"

text \<open>The loop over \<open>fields\<close> (lines 28 to 47), with the \<open>values\<close> built so far.\<close>

fun collect_values :: "FieldConfig list \<Rightarrow> FormData \<Rightarrow> formvalues \<Rightarrow> exn + formvalues" where
  "collect_values [] formData vals = Inr vals"
| "collect_values (field # flds) formData vals =
     (case field_value field (formData_get formData (f_name field)) of
        Inl e \<Rightarrow> Inl e
      | Inr v \<Rightarrow> collect_values flds formData (AList.update (f_name field) v vals))"

text \<open>
  The state of one form builder instance that \<open>handleSubmit\<close> touches: the \<open>isPending\<close>
  flag of \<open>useTransition\<close> and the number of \<open>onSubmit\<close> calls that have not settled.
\<close>

record FormState =
  isPending :: bool
  in_flight :: nat

text \<open>
  What one call of \<open>handleSubmit\<close> does: it throws before \<open>startTransition\<close>, or it calls
  \<open>onSubmit\<close> with the values inside the transition.
\<close>

datatype submit_outcome = Throws exn | OnSubmit formvalues

definition handleSubmit :: "FieldConfig list \<Rightarrow> FormData \<Rightarrow> FormState \<Rightarrow> submit_outcome \<times> FormState" where
  "handleSubmit flds formData s =
     (case collect_values flds formData [] of
        Inl e \<Rightarrow> (Throws e, s)
      | Inr vals \<Rightarrow> (OnSubmit vals, s\<lparr>isPending := True, in_flight := Suc (in_flight s)\<rparr>))"

text \<open>An awaited \<open>onSubmit\<close> settles; the transition stays pending while another one runs.\<close>

definition settle :: "FormState \<Rightarrow> FormState" where
  "settle s = s\<lparr>in_flight := in_flight s - 1, isPending := (1 < in_flight s)\<rparr>"

definition initial_form :: FormState where
  "initial_form = \<lparr>isPending = False, in_flight = 0\<rparr>"

text \<open>
  The submit button is rendered with \<open>isLoading = isPending\<close>, and \<open>Button\<close> disables
  itself when loading; no code of \<open>handleSubmit\<close> reads the flag.
\<close>

definition submit_disabled :: "FormState \<Rightarrow> bool" where
  "submit_disabled s = isPending s"

text \<open>Steps of an instance when \<open>handleSubmit\<close> may be called at any time.\<close>

inductive form_step :: "FieldConfig list \<Rightarrow> FormState \<Rightarrow> FormState \<Rightarrow> bool" where
  submit: "form_step flds s (snd (handleSubmit flds formData s))"
| settled: "0 < in_flight s \<Longrightarrow> form_step flds s (settle s)"

inductive form_reachable :: "FieldConfig list \<Rightarrow> FormState \<Rightarrow> bool" where
  init: "form_reachable flds initial_form"
| step: "form_reachable flds s \<Longrightarrow> form_step flds s s' \<Longrightarrow> form_reachable flds s'"

text \<open>Steps when a submit event only arrives through the enabled submit button.\<close>

inductive ui_step :: "FieldConfig list \<Rightarrow> FormState \<Rightarrow> FormState \<Rightarrow> bool" where
  ui_submit: "\<not> submit_disabled s \<Longrightarrow> ui_step flds s (snd (handleSubmit flds formData s))"
| ui_settled: "0 < in_flight s \<Longrightarrow> ui_step flds s (settle s)"

inductive ui_reachable :: "FieldConfig list \<Rightarrow> FormState \<Rightarrow> bool" where
  ui_init: "ui_reachable flds initial_form"
| ui_next: "ui_reachable flds s \<Longrightarrow> ui_step flds s s' \<Longrightarrow> ui_reachable flds s'"

text \<open>
  The field types that take the last branch of the loop body, and the entries that
  branch accepts as a value (a non-empty string).
\<close>

definition text_like :: "FieldConfig \<Rightarrow> bool" where
  "text_like field = (f_type field \<noteq> ''checkbox'' \<and> f_type field \<noteq> ''number'')"

definition text_present :: "FormDataEntryValue option \<Rightarrow> bool" where
  "text_present v = (entry_truthy v \<and> is_string v)"

section \<open>Request builder (ManageService.ts)\<close>

text \<open>\<open>HTTP_METHODS\<close> and \<open>CONTENT_TYPES.JSON\<close> of apiConstants.\<close>

datatype HttpMethod = GET | POST | PUT | PATCH | DELETE

fun method_name :: "HttpMethod \<Rightarrow> string" where
  "method_name GET = ''GET''"
| "method_name POST = ''POST''"
| "method_name PUT = ''PUT''"
| "method_name PATCH = ''PATCH''"
| "method_name DELETE = ''DELETE''"

definition CONTENT_TYPES_JSON :: string where
  "CONTENT_TYPES_JSON = ''application/json''"

text \<open>A query parameter value: \<open>string | number | boolean\<close>, and \<open>String(value)\<close> on it.\<close>

datatype prim = PStr string | PNum int | PBool bool

fun String_of :: "prim \<Rightarrow> string" where
  "String_of (PStr s) = s"
| "String_of (PNum n) = (if n < 0 then CHR ''-'' # decimal (nat (- n)) else decimal (nat n))"
| "String_of (PBool b) = (if b then ''true'' else ''false'')"

text \<open>
  \<open>RequestConfig\<close>. An absent \<open>queryParams\<close> is \<open>None\<close>, an absent \<open>body\<close> is
  \<open>JUndefined\<close>; \<open>headers\<close> is set by the constructor.
\<close>

record RequestConfig =
  endpoint :: string
  http_method :: HttpMethod
  queryParams :: "(string \<times> prim) list option"
  body :: jsval
  headers :: "(string \<times> string) list"

record RequestBuilder =
  this_config :: RequestConfig
  this_baseUrl :: string

definition new_RequestBuilder :: "string \<Rightarrow> HttpMethod \<Rightarrow> string \<Rightarrow> RequestBuilder" where
  "new_RequestBuilder e m base =
     \<lparr>this_config = \<lparr>endpoint = e, http_method = m, queryParams = None, body = JUndefined,
                headers = [(''Content-Type'', CONTENT_TYPES_JSON)]\<rparr>,
      this_baseUrl = base\<rparr>"

definition setQueryParams :: "(string \<times> prim) list \<Rightarrow> RequestBuilder \<Rightarrow> RequestBuilder" where
  "setQueryParams params this = this\<lparr>this_config := (this_config this)\<lparr>queryParams := Some params\<rparr>\<rparr>"

definition setBody :: "jsval \<Rightarrow> RequestBuilder \<Rightarrow> RequestBuilder" where
  "setBody b this = this\<lparr>this_config := (this_config this)\<lparr>body := b\<rparr>\<rparr>"

text \<open>Object spread \<open>{...a, ...b}\<close>: the keys of \<open>a\<close> in place, overwritten by \<open>b\<close>, then the new keys of \<open>b\<close>.\<close>

definition spread :: "(string \<times> 'v) list \<Rightarrow> (string \<times> 'v) list \<Rightarrow> (string \<times> 'v) list" where
  "spread a b = foldl (\<lambda>acc kv. AList.update (fst kv) (snd kv) acc) a b"

definition setHeaders :: "(string \<times> string) list \<Rightarrow> RequestBuilder \<Rightarrow> RequestBuilder" where
  "setHeaders hs this = this\<lparr>this_config := (this_config this)\<lparr>headers := spread (headers (this_config this)) hs\<rparr>\<rparr>"

text \<open>
  \<open>URLSearchParams.toString()\<close>: the application/x-www-form-urlencoded serialisation.
  Letters, digits and \<open>* - . _\<close> stay, a space becomes \<open>+\<close>, every other code point is
  percent-encoded byte by byte in UTF-8 (two bytes from 128 on).
\<close>

definition hex_char :: "nat \<Rightarrow> char" where
  "hex_char n = (if n < 10 then char_of (48 + n) else char_of (55 + n))"

definition percent_byte :: "nat \<Rightarrow> string" where
  "percent_byte b = [CHR ''%'', hex_char (b div 16), hex_char (b mod 16)]"

definition urlencode_char :: "char \<Rightarrow> string" where
  "urlencode_char c =
     (let n = (of_char c :: nat) in
      if n = 32 then ''+''
      else if (48 \<le> n \<and> n \<le> 57) \<or> (65 \<le> n \<and> n \<le> 90) \<or> (97 \<le> n \<and> n \<le> 122)
              \<or> n = 42 \<or> n = 45 \<or> n = 46 \<or> n = 95 then [c]
      else if n < 128 then percent_byte n
      else percent_byte (192 + n div 64) @ percent_byte (128 + n mod 64))"

definition urlencode :: "string \<Rightarrow> string" where
  "urlencode s = concat (map urlencode_char s)"

fun join :: "string \<Rightarrow> string list \<Rightarrow> string" where
  "join sep [] = []"
| "join sep [x] = x"
| "join sep (x # y # ys) = x @ sep @ join sep (y # ys)"

definition URLSearchParams_toString :: "(string \<times> string) list \<Rightarrow> string" where
  "URLSearchParams_toString ps = join ''&'' (map (\<lambda>kv. urlencode (fst kv) @ ''='' @ urlencode (snd kv)) ps)"

text \<open>
  The \<open>RequestInit\<close> given to \<open>fetch\<close>; an absent member is \<open>None\<close>. The body is the text
  \<open>JSON.stringify\<close> makes of a value, kept as that value.
\<close>

datatype body_init = JSON_stringify jsval

record RequestInit =
  init_method :: "string option"
  init_headers :: "(string \<times> string) list option"
  init_body :: "body_init option"
  init_cache :: "string option"

text \<open>
  A response: the status, the status phrase, what \<open>response.text()\<close> resolves to and what
  \<open>response.json()\<close> resolves or rejects to. \<open>response.ok\<close> is true for 200 to 299.
\<close>

record Response =
  status :: nat
  statusText :: string
  text_body :: string
  json_body :: "exn + jsval"

definition ok :: "Response \<Rightarrow> bool" where
  "ok response = (200 \<le> status response \<and> status response \<le> 299)"

text \<open>\<open>fetch\<close>: the response, or the value a rejected promise carries.\<close>

type_synonym fetch = "string \<Rightarrow> RequestInit \<Rightarrow> exn + Response"

text \<open>The URL and the options that \<open>execRequest\<close> builds before it calls \<open>fetch\<close>.\<close>

definition request_url :: "RequestBuilder \<Rightarrow> string" where
  "request_url this =
     (let url = this_baseUrl this @ endpoint (this_config this) in
      case queryParams (this_config this) of
        None \<Rightarrow> url
      | Some params \<Rightarrow>
          url @ ''?'' @ URLSearchParams_toString (map (\<lambda>kv. (fst kv, String_of (snd kv))) params))"

definition request_options :: "RequestBuilder \<Rightarrow> RequestInit" where
  "request_options this =
     (let options = \<lparr>init_method = Some (method_name (http_method (this_config this))),
                     init_headers = Some (headers (this_config this)),
                     init_body = None, init_cache = None\<rparr>
      in if truthy (body (this_config this)) \<and> http_method (this_config this) \<noteq> GET
         then options\<lparr>init_body := Some (JSON_stringify (body (this_config this)))\<rparr>
         else options)"

text \<open>The message of the error thrown for a response that is not ok.\<close>

definition http_error_message :: "Response \<Rightarrow> string" where
  "http_error_message response =
     ''HTTP '' @ decimal (status response) @ '': '' @
     (if text_body response \<noteq> [] then text_body response else statusText response)"

text \<open>The \<open>catch\<close> block: an \<open>Error\<close> is thrown again, anything else is replaced.\<close>

fun rethrow :: "exn \<Rightarrow> exn" where
  "rethrow (Error m) = Error m"
| "rethrow (Thrown v) = Error ''An unexpected error occurred''"

definition execRequest :: "fetch \<Rightarrow> RequestBuilder \<Rightarrow> exn + jsval" where
  "execRequest fetch this =
     (case (case fetch (request_url this) (request_options this) of
              Inl e \<Rightarrow> Inl e
            | Inr response \<Rightarrow>
                if \<not> ok response then Inl (Error (http_error_message response))
                else if status response = 204 then Inr JUndefined
                else json_body response)
      of Inl e \<Rightarrow> Inl (rethrow e)
       | Inr data \<Rightarrow> Inr data)"

text \<open>\<open>ManageService(baseUrl).prepareRequest\<close>.\<close>

definition prepareRequest :: "string \<Rightarrow> string \<Rightarrow> HttpMethod \<Rightarrow> RequestBuilder" where
  "prepareRequest base e m = new_RequestBuilder e m base"

section \<open>Deck service\<close>

text \<open>\<open>DECK_ENDPOINTS\<close> (constants).\<close>

definition DECK_ENDPOINTS_BASE :: string where
  "DECK_ENDPOINTS_BASE = ''/v1/decks''"

definition DECK_ENDPOINTS_DETAIL :: "string \<Rightarrow> string" where
  "DECK_ENDPOINTS_DETAIL ident = ''/v1/decks/'' @ ident"

text \<open>
  The parameter of \<open>update\<close>: the \<open>id\<close> and the other own properties of the object, which
  \<open>const { id, ...data } = params\<close> separates.
\<close>

record UpdateParams =
  params_id :: string
  params_rest :: "(string \<times> jsval) list"

subsection \<open>The service built with ManageService\<close>

text \<open>
  \<open>process.env.NEXT_PUBLIC_API_URL || ''\<close>: the variable is a string or unset (\<open>None\<close>).
\<close>

definition API_URL :: "string option \<Rightarrow> string" where
  "API_URL env = (case env of None \<Rightarrow> [] | Some u \<Rightarrow> if u \<noteq> [] then u else [])"

definition deckService_getAll :: "fetch \<Rightarrow> string option \<Rightarrow> exn + jsval" where
  "deckService_getAll fetch env =
     execRequest fetch (prepareRequest (API_URL env) DECK_ENDPOINTS_BASE GET)"

definition deckService_getById :: "fetch \<Rightarrow> string option \<Rightarrow> string \<Rightarrow> exn + jsval" where
  "deckService_getById fetch env ident =
     execRequest fetch (prepareRequest (API_URL env) (DECK_ENDPOINTS_DETAIL ident) GET)"

definition deckService_create :: "fetch \<Rightarrow> string option \<Rightarrow> (string \<times> jsval) list \<Rightarrow> exn + jsval" where
  "deckService_create fetch env params =
     execRequest fetch
       (setBody (JObj params) (prepareRequest (API_URL env) DECK_ENDPOINTS_BASE POST))"

definition deckService_update :: "fetch \<Rightarrow> string option \<Rightarrow> UpdateParams \<Rightarrow> exn + jsval" where
  "deckService_update fetch env params =
     execRequest fetch
       (setBody (JObj (params_rest params))
          (prepareRequest (API_URL env) (DECK_ENDPOINTS_DETAIL (params_id params)) PUT))"

definition deckService_delete :: "fetch \<Rightarrow> string option \<Rightarrow> string \<Rightarrow> exn + jsval" where
  "deckService_delete fetch env ident =
     execRequest fetch (prepareRequest (API_URL env) (DECK_ENDPOINTS_DETAIL ident) DELETE)"

subsection \<open>The service that calls fetch itself (src/unnamed/part_002)\<close>

text \<open>
  Here \<open>API_URL\<close> is the variable as it is, and an unset one prints as \<open>undefined\<close> in the
  template literal. Nothing is caught: a rejection of \<open>fetch\<close> is the rejection of the call.
\<close>

definition API_URL_direct :: "string option \<Rightarrow> string" where
  "API_URL_direct env = (case env of None \<Rightarrow> ''undefined'' | Some u \<Rightarrow> u)"

definition no_init :: RequestInit where
  "no_init = \<lparr>init_method = None, init_headers = None, init_body = None, init_cache = None\<rparr>"

definition direct_getAll :: "fetch \<Rightarrow> string option \<Rightarrow> exn + jsval" where
  "direct_getAll fetch env =
     (case fetch (API_URL_direct env @ ''/v1/decks'') (no_init\<lparr>init_cache := Some ''no-store''\<rparr>) of
        Inl e \<Rightarrow> Inl e
      | Inr res \<Rightarrow> if \<not> ok res then Inl (Error ''Failed to fetch decks'') else json_body res)"

definition direct_getById :: "fetch \<Rightarrow> string option \<Rightarrow> string \<Rightarrow> exn + jsval" where
  "direct_getById fetch env ident =
     (case fetch (API_URL_direct env @ ''/v1/decks/'' @ ident)
             (no_init\<lparr>init_cache := Some ''no-store''\<rparr>) of
        Inl e \<Rightarrow> Inl e
      | Inr res \<Rightarrow> if \<not> ok res then Inl (Error ''Failed to fetch deck'') else json_body res)"

definition direct_create :: "fetch \<Rightarrow> string option \<Rightarrow> (string \<times> jsval) list \<Rightarrow> exn + jsval" where
  "direct_create fetch env params =
     (case fetch (API_URL_direct env @ ''/v1/decks'')
             (no_init\<lparr>init_method := Some ''POST'',
                      init_headers := Some [(''Content-Type'', ''application/json'')],
                      init_body := Some (JSON_stringify (JObj params))\<rparr>) of
        Inl e \<Rightarrow> Inl e
      | Inr res \<Rightarrow> if \<not> ok res then Inl (Error ''Failed to create deck'') else json_body res)"

definition direct_update :: "fetch \<Rightarrow> string option \<Rightarrow> UpdateParams \<Rightarrow> exn + jsval" where
  "direct_update fetch env params =
     (case fetch (API_URL_direct env @ ''/v1/decks/'' @ params_id params)
             (no_init\<lparr>init_method := Some ''PUT'',
                      init_headers := Some [(''Content-Type'', ''application/json'')],
                      init_body := Some (JSON_stringify (JObj (params_rest params)))\<rparr>) of
        Inl e \<Rightarrow> Inl e
      | Inr res \<Rightarrow> if \<not> ok res then Inl (Error ''Failed to update deck'') else json_body res)"

definition direct_delete :: "fetch \<Rightarrow> string option \<Rightarrow> string \<Rightarrow> exn + jsval" where
  "direct_delete fetch env ident =
     (case fetch (API_URL_direct env @ ''/v1/decks/'' @ ident)
             (no_init\<lparr>init_method := Some ''DELETE''\<rparr>) of
        Inl e \<Rightarrow> Inl e
      | Inr res \<Rightarrow> if \<not> ok res then Inl (Error ''Failed to delete deck'') else Inr JUndefined)"

text \<open>An endpoint that answers every request with the same response.\<close>

definition respond_with :: "Response \<Rightarrow> fetch" where
  "respond_with response url options = Inr response"

text \<open>Status 404 with the body \<open>Not found\<close>; status 500 with an empty body.\<close>

definition not_found_response :: Response where
  "not_found_response =
     \<lparr>status = 404, statusText = ''Not Found'', text_body = ''Not found'',
      json_body = Inl (Error ''Unexpected token N in JSON at position 0'')\<rparr>"

definition empty_error_response :: Response where
  "empty_error_response =
     \<lparr>status = 500, statusText = ''Internal Server Error'', text_body = [],
      json_body = Inl (Error ''Unexpected end of JSON input'')\<rparr>"

subsection \<open>The contract of one service call, in the words of the specification\<close>

text \<open>
  One call against \<open>base @ path\<close> with the given method, the JSON content type and the
  payload serialised as JSON when there is one. A transport failure is raised again if it
  is an error and wrapped otherwise; a status outside 200 to 299 fails with the status
  and the response text, or the status phrase when the text is empty; status 204 gives
  \<open>undefined\<close>; any other response is parsed as JSON.
\<close>

definition spec_service_call ::
  "fetch \<Rightarrow> string \<Rightarrow> HttpMethod \<Rightarrow> string \<Rightarrow> jsval option \<Rightarrow> exn + jsval" where
  "spec_service_call fetch base verb path payload =
     (case fetch (base @ path)
             \<lparr>init_method = Some (method_name verb),
              init_headers = Some [(''Content-Type'', ''application/json'')],
              init_body = map_option JSON_stringify payload,
              init_cache = None\<rparr> of
        Inl e \<Rightarrow> Inl (rethrow e)
      | Inr r \<Rightarrow>
          if status r < 200 \<or> 299 < status r then
            Inl (Error (''HTTP '' @ decimal (status r) @ '': '' @
                        (if text_body r = [] then statusText r else text_body r)))
          else if status r = 204 then Inr JUndefined
          else (case json_body r of Inl e \<Rightarrow> Inl (rethrow e) | Inr d \<Rightarrow> Inr d))"

text \<open>Status 200 with the JSON body \<open>{"id":"d1","name":"Test","count":0}\<close>.\<close>

definition deck_response :: Response where
  "deck_response =
     \<lparr>status = 200, statusText = ''OK'',
      text_body = ''{\"id\":\"d1\",\"name\":\"Test\",\"count\":0}'',
      json_body = Inr (JObj [(''id'', JStr ''d1''), (''name'', JStr ''Test''), (''count'', JNum 0)])\<rparr>"

section \<open>Query hook (useServiceQuery.ts)\<close>

definition DEFAULT_RETRY_COUNT :: jsval where
  "DEFAULT_RETRY_COUNT = JNum 3"

definition DEFAULT_STALE_TIME :: jsval where
  "DEFAULT_STALE_TIME = JNum (5 * 60 * 1000)"

definition DEFAULT_GC_TIME :: jsval where
  "DEFAULT_GC_TIME = JNum (10 * 60 * 1000)"

definition DEFAULT_REFETCH_ON_WINDOW_FOCUS :: jsval where
  "DEFAULT_REFETCH_ON_WINDOW_FOCUS = JBool True"

definition DEFAULT_REFETCH_INTERVAL :: jsval where
  "DEFAULT_REFETCH_INTERVAL = JBool False"

text \<open>
  \<open>key in v\<close>, for a key that \<open>Object.prototype\<close> and \<open>Array.prototype\<close> do not define:
  an own property of an object, an index or \<open>length\<close> of an array, and a \<open>TypeError\<close> on
  anything that is not an object.
\<close>

fun has_key :: "string \<Rightarrow> jsval \<Rightarrow> exn + bool" where
  "has_key k (JObj ps) = Inr (k \<in> set (map fst ps))"
| "has_key k (JArr vs) = Inr (k = ''length'' \<or> k \<in> set (map decimal [0..<length vs]))"
| "has_key k v = Inl (Error ''Cannot use 'in' operator to search for a key in a primitive value'')"

text \<open>\<open>(paramsOrOptions as object || {})\<close>.\<close>

definition or_empty_object :: "jsval \<Rightarrow> jsval" where
  "or_empty_object v = (if truthy v then v else JObj [])"

text \<open>The three \<open>in\<close> tests joined by \<open>||\<close>, left to right, stopping at the first that holds.\<close>

definition has_option_key :: "jsval \<Rightarrow> exn + bool" where
  "has_option_key p =
     (case has_key ''enabled'' (or_empty_object p) of
        Inl e \<Rightarrow> Inl e
      | Inr True \<Rightarrow> Inr True
      | Inr False \<Rightarrow>
          (case has_key ''retry'' (or_empty_object p) of
             Inl e \<Rightarrow> Inl e
           | Inr True \<Rightarrow> Inr True
           | Inr False \<Rightarrow> has_key ''staleTime'' (or_empty_object p)))"

definition hasParams :: "jsval \<Rightarrow> jsval \<Rightarrow> exn + bool" where
  "hasParams paramsOrOptions options =
     (if options \<noteq> JUndefined then Inr True
      else if paramsOrOptions \<noteq> JUndefined then
        (case has_option_key paramsOrOptions of Inl e \<Rightarrow> Inl e | Inr b \<Rightarrow> Inr (\<not> b))
      else Inr False)"

text \<open>
  \<open>finalOptions?.k\<close> for one of the option names: the own property of an object,
  \<open>undefined\<close> when there is none or when the value is not an object.
\<close>

fun option_value :: "jsval \<Rightarrow> string \<Rightarrow> jsval" where
  "option_value (JObj ps) k = (case map_of ps k of None \<Rightarrow> JUndefined | Some v \<Rightarrow> v)"
| "option_value v k = JUndefined"

text \<open>\<open>a ?? b\<close>.\<close>

definition nullish :: "jsval \<Rightarrow> jsval \<Rightarrow> jsval" where
  "nullish a b = (if a = JUndefined \<or> a = JNull then b else a)"

text \<open>
  The options given to \<open>useQuery\<close>. Of \<open>queryFn\<close> the record keeps what it calls the
  service with: \<open>Some params\<close>, or \<open>None\<close> for a call without argument.
\<close>

record UseQueryOptions =
  queryKey :: "jsval list"
  queryFn_argument :: "jsval option"
  enabled :: jsval
  retry :: jsval
  staleTime :: jsval
  gcTime :: jsval
  refetchOnWindowFocus :: jsval
  refetchInterval :: jsval

text \<open>
  \<open>useServiceQuery(queryKey, service, paramsOrOptions, options)\<close> up to the call of
  \<open>useQuery\<close>: the options it passes, or the error thrown. An argument left out is
  \<open>JUndefined\<close>.
\<close>

definition useServiceQuery :: "jsval list \<Rightarrow> jsval \<Rightarrow> jsval \<Rightarrow> exn + UseQueryOptions" where
  "useServiceQuery key paramsOrOptions options =
     (case hasParams paramsOrOptions options of
        Inl e \<Rightarrow> Inl e
      | Inr hp \<Rightarrow>
          let params = (if hp then paramsOrOptions else JUndefined);
              finalOptions = (if hp then options else paramsOrOptions)
          in Inr \<lparr>queryKey = (if params \<noteq> JUndefined then key @ [params] else key),
                  queryFn_argument = (if params \<noteq> JUndefined then Some params else None),
                  enabled = nullish (option_value finalOptions ''enabled'') (JBool True),
                  retry = nullish (option_value finalOptions ''retry'') DEFAULT_RETRY_COUNT,
                  staleTime = nullish (option_value finalOptions ''staleTime'') DEFAULT_STALE_TIME,
                  gcTime = nullish (option_value finalOptions ''gcTime'') DEFAULT_GC_TIME,
                  refetchOnWindowFocus =
                    nullish (option_value finalOptions ''refetchOnWindowFocus'')
                      DEFAULT_REFETCH_ON_WINDOW_FOCUS,
                  refetchInterval =
                    nullish (option_value finalOptions ''refetchInterval'')
                      DEFAULT_REFETCH_INTERVAL\<rparr>)"

section \<open>Notification provider and component\<close>

datatype NotificationType = TSuccess | TError | TInfo | TWarning

text \<open>The \<open>Notification\<close> data (types.ts); \<open>duration\<close> is optional.\<close>

record Notification =
  n_id :: string
  n_type :: NotificationType
  n_message :: string
  n_duration :: "int option"

text \<open>The updater of \<open>removeNotification\<close>.\<close>

definition removeNotification :: "string \<Rightarrow> Notification list \<Rightarrow> Notification list" where
  "removeNotification ident prev = filter (\<lambda>notification. n_id notification \<noteq> ident) prev"

text \<open>
  The notification that \<open>showNotification\<close> builds. An argument left out is \<open>None\<close> and
  takes the default of the parameter list; \<open>now\<close> is \<open>Date.now()\<close> and \<open>rnd\<close> the text
  of \<open>Math.random()\<close>.
\<close>

definition new_notification ::
  "string \<Rightarrow> NotificationType option \<Rightarrow> int option \<Rightarrow> nat \<Rightarrow> string \<Rightarrow> Notification" where
  "new_notification message type duration now rnd =
     \<lparr>n_id = decimal now @ ''-'' @ rnd,
      n_type = (case type of None \<Rightarrow> TInfo | Some t \<Rightarrow> t),
      n_message = message,
      n_duration = Some (case duration of None \<Rightarrow> 3000 | Some d \<Rightarrow> d)\<rparr>"

text \<open>
  The effect of the \<open>Notification\<close> component, run when it mounts at time \<open>now\<close>: the
  timeouts it sets, each the id to close and the deadline. The component has its own
  default for an absent duration. The clock counts milliseconds.
\<close>

definition Notification_effect :: "Notification \<Rightarrow> nat \<Rightarrow> (string \<times> nat) list" where
  "Notification_effect n now =
     (let duration = (case n_duration n of None \<Rightarrow> 3000 | Some d \<Rightarrow> d)
      in if 0 < duration then [(n_id n, now + nat duration)] else [])"

text \<open>
  The provider's list together with the timeouts that are pending for the rendered
  notifications.
\<close>

record Provider =
  notifications :: "Notification list"
  timers :: "(string \<times> nat) list"

text \<open>
  \<open>showNotification\<close>: the new notification is appended; the container renders it, and
  the effect of the mounted component sets its timeout, at the same reading of the clock.
\<close>

definition showNotification ::
  "string \<Rightarrow> NotificationType option \<Rightarrow> int option \<Rightarrow> nat \<Rightarrow> string \<Rightarrow> Provider \<Rightarrow> Provider" where
  "showNotification message type duration now rnd s =
     (let notification = new_notification message type duration now rnd
      in \<lparr>notifications = notifications s @ [notification],
          timers = timers s @ Notification_effect notification now\<rparr>)"

definition notify_success :: "string \<Rightarrow> int option \<Rightarrow> nat \<Rightarrow> string \<Rightarrow> Provider \<Rightarrow> Provider" where
  "notify_success message duration = showNotification message (Some TSuccess) duration"

definition notify_error :: "string \<Rightarrow> int option \<Rightarrow> nat \<Rightarrow> string \<Rightarrow> Provider \<Rightarrow> Provider" where
  "notify_error message duration = showNotification message (Some TError) duration"

definition notify_info :: "string \<Rightarrow> int option \<Rightarrow> nat \<Rightarrow> string \<Rightarrow> Provider \<Rightarrow> Provider" where
  "notify_info message duration = showNotification message (Some TInfo) duration"

definition notify_warning :: "string \<Rightarrow> int option \<Rightarrow> nat \<Rightarrow> string \<Rightarrow> Provider \<Rightarrow> Provider" where
  "notify_warning message duration = showNotification message (Some TWarning) duration"

text \<open>
  \<open>onClose(id)\<close>, from the close button or from a timeout: \<open>removeNotification\<close>, after
  which the removed component unmounts and the cleanup of its effect clears its timeout.
\<close>

definition onClose :: "string \<Rightarrow> Provider \<Rightarrow> Provider" where
  "onClose ident s =
     \<lparr>notifications = removeNotification ident (notifications s),
      timers = filter (\<lambda>tm. fst tm \<noteq> ident) (timers s)\<rparr>"

text \<open>The pending timeout that fires next when the clock reaches \<open>t\<close>: a due one of least deadline.\<close>

definition next_due :: "nat \<Rightarrow> (string \<times> nat) list \<Rightarrow> (string \<times> nat) option" where
  "next_due t tms =
     (let ds = filter (\<lambda>tm. snd tm \<le> t) tms
      in if ds = [] then None else Some (arg_min_list snd ds))"

text \<open>The clock runs to \<open>t\<close>: the due timeouts fire one after the other, each calling \<open>onClose\<close>.\<close>

function advance :: "nat \<Rightarrow> Provider \<Rightarrow> Provider" where
  "advance t s =
     (case next_due t (timers s) of
        None \<Rightarrow> s
      | Some tm \<Rightarrow> advance t (onClose (fst tm) s))"
  by pat_completeness auto
termination
proof (relation "measure (\<lambda>(t, s). length (timers s))")
  show "wf (measure (\<lambda>(t, s). length (timers s)))" by simp
next
  fix t :: nat and s :: Provider and tm :: "string \<times> nat"
  assume a: "next_due t (timers s) = Some tm"
  let ?ds = "filter (\<lambda>tm. snd tm \<le> t) (timers s)"
  from a have ne: "?ds \<noteq> []" and tm: "tm = arg_min_list snd ?ds"
    by (auto simp: next_due_def Let_def split: if_splits)
  from arg_min_list_in[OF ne, of snd] tm have "tm \<in> set ?ds" by simp
  then have "tm \<in> set (timers s)" by simp
  then have "length (filter (\<lambda>x. fst x \<noteq> fst tm) (timers s)) < length (timers s)"
    by (intro length_filter_less[of tm]) simp_all
  then show "((t, onClose (fst tm) s), (t, s)) \<in> measure (\<lambda>(t, s). length (timers s))"
    by (simp add: onClose_def)
qed

declare advance.simps [simp del]

text \<open>The ids whose timeout is due at \<open>t\<close>.\<close>

definition due :: "nat \<Rightarrow> (string \<times> nat) list \<Rightarrow> string set" where
  "due t tms = fst ` {tm \<in> set tms. snd tm \<le> t}"

definition empty_provider :: Provider where
  "empty_provider = \<lparr>notifications = [], timers = []\<rparr>"

section \<open>Mutation hook (useService.ts)\<close>

text \<open>
  Modelled from the spec: \<open>useMutation\<close> of the query library, which is not part of the
  source files. The state of one mutation is its status, its last data and its error;
  \<open>idle \<rightarrow> pending \<rightarrow> {success, error}\<close>, \<open>reset()\<close> returns to \<open>idle\<close>, and a new call
  from a terminal state goes through \<open>pending\<close> again.
\<close>

datatype MutationStatus = StatusIdle | StatusPending | StatusSuccess | StatusError

record Mutation =
  mutation_status :: MutationStatus
  mutation_data :: jsval
  mutation_error :: "exn option"

definition mutation_idle :: Mutation where
  "mutation_idle = \<lparr>mutation_status = StatusIdle, mutation_data = JUndefined, mutation_error = None\<rparr>"

definition mutateAsync :: "Mutation \<Rightarrow> Mutation" where
  "mutateAsync m = \<lparr>mutation_status = StatusPending, mutation_data = JUndefined, mutation_error = None\<rparr>"

definition mutation_resolved :: "jsval \<Rightarrow> Mutation \<Rightarrow> Mutation" where
  "mutation_resolved d m = \<lparr>mutation_status = StatusSuccess, mutation_data = d, mutation_error = None\<rparr>"

definition mutation_rejected :: "exn \<Rightarrow> Mutation \<Rightarrow> Mutation" where
  "mutation_rejected e m = \<lparr>mutation_status = StatusError, mutation_data = JUndefined, mutation_error = Some e\<rparr>"

definition mutation_reset :: "Mutation \<Rightarrow> Mutation" where
  "mutation_reset m = mutation_idle"

definition mutation_isPending :: "Mutation \<Rightarrow> bool" where
  "mutation_isPending m = (mutation_status m = StatusPending)"

definition mutation_isSuccess :: "Mutation \<Rightarrow> bool" where
  "mutation_isSuccess m = (mutation_status m = StatusSuccess)"

text \<open>
  The projection that \<open>useService\<close> returns, read from the mutation. Its \<open>fetch\<close> is
  \<open>mutateAsync\<close> and its \<open>reset\<close> is the mutation's \<open>reset\<close>.
\<close>

record UseServiceResult =
  isLoading :: bool
  isLoaded :: bool
  error :: "exn option"
  result :: jsval

definition useService :: "Mutation \<Rightarrow> UseServiceResult" where
  "useService mutation =
     \<lparr>isLoading = mutation_isPending mutation,
      isLoaded = mutation_isSuccess mutation,
      error = mutation_error mutation,
      result = mutation_data mutation\<rparr>"

section \<open>Theorems\<close>

subsection \<open>Field renderer\<close>

text \<open>
  Claim C9. For a configuration whose type is none of text, email, password, number,
  textarea, select, checkbox, radio the renderer returns null and does not fail; for each
  of the eight types it returns the component of that name, given the configuration and
  the disabled flag unchanged.
\<close>

theorem Field_dispatch:
  "(f_type config \<notin> FieldType \<longrightarrow> Field config disabled = None) \<and>
   (f_type config = ''text'' \<longrightarrow> Field config disabled = Some (TextField config disabled)) \<and>
   (f_type config = ''email'' \<longrightarrow> Field config disabled = Some (EmailField config disabled)) \<and>
   (f_type config = ''password'' \<longrightarrow> Field config disabled = Some (PasswordField config disabled)) \<and>
   (f_type config = ''number'' \<longrightarrow> Field config disabled = Some (NumberField config disabled)) \<and>
   (f_type config = ''textarea'' \<longrightarrow> Field config disabled = Some (TextareaField config disabled)) \<and>
   (f_type config = ''select'' \<longrightarrow> Field config disabled = Some (SelectField config disabled)) \<and>
   (f_type config = ''checkbox'' \<longrightarrow> Field config disabled = Some (CheckboxField config disabled)) \<and>
   (f_type config = ''radio'' \<longrightarrow> Field config disabled = Some (RadioField config disabled))"
  by (simp add: Field_def FieldType_def)

theorem Field_dispatch_witness:
  "Field \<lparr>f_type = ''color'', f_name = ''c'', f_label = ''C'', f_required = False,
          f_disabled = False\<rparr> True = None \<and>
   Field \<lparr>f_type = ''number'', f_name = ''n'', f_label = ''N'', f_required = True,
          f_disabled = False\<rparr> False =
     Some (NumberField \<lparr>f_type = ''number'', f_name = ''n'', f_label = ''N'',
                        f_required = True, f_disabled = False\<rparr> False)"
  using Field_dispatch [of "\<lparr>f_type = ''color'', f_name = ''c'', f_label = ''C'',
                            f_required = False, f_disabled = False\<rparr>" True]
        Field_dispatch [of "\<lparr>f_type = ''number'', f_name = ''n'', f_label = ''N'',
                            f_required = True, f_disabled = False\<rparr>" False]
  by (simp add: FieldType_def)

subsection \<open>Form builder: validation and coercion\<close>

lemma field_value_text_like:
  "text_like field \<Longrightarrow> field_value field v =
     (if text_present v then Inr (VString (the_string v))
      else if f_required field then Inl (Error (required_message field))
      else Inr VUndefined)"
  by (simp add: field_value_def text_like_def text_present_def)

lemma field_value_not_text_like:
  "\<not> text_like field \<Longrightarrow> \<exists>v'. field_value field v = Inr v'"
  by (auto simp: field_value_def text_like_def Let_def)

text \<open>
  The loop throws only for a required field of the text-like types whose entry is not a
  non-empty string, and the message names that field.
\<close>

lemma collect_values_throws:
  "collect_values flds formData vals = Inl e \<Longrightarrow>
   \<exists>field \<in> set flds. text_like field \<and> f_required field \<and>
       \<not> text_present (formData_get formData (f_name field)) \<and>
       e = Error (required_message field)"
proof (induction flds arbitrary: vals)
  case Nil
  then show ?case by simp
next
  case (Cons field flds)
  show ?case
  proof (cases "field_value field (formData_get formData (f_name field))")
    case (Inl e')
    with Cons.prems have e: "e' = e" by simp
    have tl: "text_like field"
      using Inl field_value_not_text_like[of field "formData_get formData (f_name field)"]
      by auto
    from Inl tl e show ?thesis
      by (auto simp: field_value_text_like split: if_splits)
  next
    case (Inr v)
    with Cons.prems
    have "collect_values flds formData (AList.update (f_name field) v vals) = Inl e"
      by simp
    from Cons.IH[OF this] show ?thesis by auto
  qed
qed

text \<open>A required text-like field without a value makes the loop throw.\<close>

lemma collect_values_required_text:
  "field \<in> set flds \<Longrightarrow> text_like field \<Longrightarrow> f_required field \<Longrightarrow>
   \<not> text_present (formData_get formData (f_name field)) \<Longrightarrow>
   \<exists>e. collect_values flds formData vals = Inl e"
proof (induction flds arbitrary: vals)
  case Nil
  then show ?case by simp
next
  case (Cons a flds)
  show ?case
  proof (cases "field_value a (formData_get formData (f_name a))")
    case (Inl e')
    then show ?thesis by simp
  next
    case (Inr v)
    have "a \<noteq> field" using Inr Cons.prems by (auto simp: field_value_text_like)
    with Cons.prems have "field \<in> set flds" by simp
    from Cons.IH[OF this Cons.prems(2,3,4)] Inr show ?thesis by simp
  qed
qed

text \<open>
  Claim C1, at the input where the code departs from it. The claim: a required field
  whose coerced value is empty or absent makes the submission fail with an error naming
  the field, and the submit handler is not called, for every field type. With one
  required number field left empty, the coerced value is \<open>undefined\<close>, nothing is
  thrown, and \<open>onSubmit\<close> is called with it.
\<close>

theorem handleSubmit_required_number_unvalidated:
  "handleSubmit
     [\<lparr>f_type = ''number'', f_name = ''age'', f_label = ''Age'', f_required = True,
       f_disabled = False\<rparr>]
     [(''age'', EntryString [])] initial_form
   = (OnSubmit [(''age'', VUndefined)], \<lparr>isPending = True, in_flight = 1\<rparr>)"
  by (simp add: handleSubmit_def field_value_def formData_get_def initial_form_def)









text \<open>A form made of number fields only never throws, whatever the form data.\<close>

lemma number_fields_never_throw:
  "list_all (\<lambda>field. f_type field = ''number'') flds \<Longrightarrow>
   \<exists>vals'. collect_values flds formData vals = Inr vals'"
proof (induction flds arbitrary: vals)
  case Nil
  then show ?case by simp
next
  case (Cons field flds)
  then have "\<not> text_like field" by (simp add: text_like_def)
  from field_value_not_text_like[OF this, of "formData_get formData (f_name field)"]
  obtain v where "field_value field (formData_get formData (f_name field)) = Inr v" by blast
  with Cons show ?case by simp
qed

subsection \<open>Form builder: submissions in flight\<close>

text \<open>
  Claim C3 as stated fails: \<open>handleSubmit\<close> does not read the pending flag, so two calls
  in a row leave two \<open>onSubmit\<close> calls in flight.
\<close>

theorem form_two_in_flight:
  "form_reachable [] \<lparr>isPending = True, in_flight = 2\<rparr> \<and>
   \<not> in_flight \<lparr>isPending = True, in_flight = 2\<rparr> \<le> 1"
proof -
  have h: "handleSubmit [] fd s
           = (OnSubmit [], s\<lparr>isPending := True, in_flight := Suc (in_flight s)\<rparr>)" for fd s
    by (simp add: handleSubmit_def)
  have 1: "form_reachable [] \<lparr>isPending = True, in_flight = 1\<rparr>"
    using form_reachable.step[OF form_reachable.init form_step.submit[of "[]" initial_form "[]"]]
    by (simp add: h initial_form_def)
  have "form_reachable [] \<lparr>isPending = True, in_flight = 2\<rparr>"
    using form_reachable.step[OF 1 form_step.submit[of "[]" _ "[]"]]
    by (simp add: h numeral_2_eq_2)
  then show ?thesis by simp
qed

text \<open>
  Claim C3, amended. The pending flag disables the rendered submit button (and the
  fields); when submit events arrive only through the enabled button, at most one
  \<open>onSubmit\<close> call is in flight in every reachable state, and the flag is set exactly
  while one is.
\<close>

theorem ui_single_flight:
  "ui_reachable flds s \<Longrightarrow> in_flight s \<le> 1 \<and> (isPending s \<longleftrightarrow> in_flight s = 1)"
proof (induction rule: ui_reachable.induct)
  case (ui_init flds)
  then show ?case by (simp add: initial_form_def)
next
  case (ui_next flds s s')
  from ui_next.hyps(2) ui_next.IH show ?case
    by (cases rule: ui_step.cases)
       (auto simp: handleSubmit_def settle_def submit_disabled_def split: sum.splits)
qed

theorem ui_single_flight_witness:
  "ui_reachable [] \<lparr>isPending = True, in_flight = 1\<rparr> \<and>
   in_flight \<lparr>isPending = True, in_flight = 1\<rparr> \<le> 1"
proof -
  have "ui_step [] initial_form (snd (handleSubmit [] [] initial_form))"
    by (rule ui_step.ui_submit) (simp add: submit_disabled_def initial_form_def)
  then have "ui_step [] initial_form \<lparr>isPending = True, in_flight = 1\<rparr>"
    by (simp add: handleSubmit_def initial_form_def)
  then have r: "ui_reachable [] \<lparr>isPending = True, in_flight = 1\<rparr>"
    using ui_reachable.ui_next[OF ui_reachable.ui_init] by blast
  from ui_single_flight[OF r] r show ?thesis by simp
qed

subsection \<open>Request builder: the error path\<close>

lemma sublist_mid: "sublist b (a @ b @ c)"
  unfolding sublist_def by blast

lemma decimal_404: "decimal 404 = ''404''"
  by code_simp

lemma decimal_500: "decimal 500 = ''500''"
  by code_simp

text \<open>
  Claim C5. When the response of an execution has a status that is not a success status,
  the call fails with an error whose message is \<open>HTTP\<close>, the status in decimal, a colon
  and the response text, or the status phrase when the text is empty; so the message
  contains the status code and that text.
\<close>

theorem execRequest_non_success:
  "fetch (request_url this) (request_options this) = Inr response \<Longrightarrow> \<not> ok response \<Longrightarrow>
   execRequest fetch this = Inl (Error (http_error_message response)) \<and>
   http_error_message response =
     ''HTTP '' @ decimal (status response) @ '': '' @
     (if text_body response \<noteq> [] then text_body response else statusText response) \<and>
   sublist (decimal (status response)) (http_error_message response) \<and>
   sublist (if text_body response \<noteq> [] then text_body response else statusText response)
           (http_error_message response)"
proof -
  assume f: "fetch (request_url this) (request_options this) = Inr response"
    and nok: "\<not> ok response"
  have 1: "execRequest fetch this = Inl (Error (http_error_message response))"
    using f nok by (simp add: execRequest_def)
  have 2: "sublist (decimal (status response)) (http_error_message response)"
    unfolding http_error_message_def by (rule sublist_mid)
  have 3: "sublist (if text_body response \<noteq> [] then text_body response else statusText response)
           (http_error_message response)"
    unfolding http_error_message_def
    using sublist_mid[of _ "''HTTP '' @ decimal (status response) @ '': ''" "[]"]
    by simp
  show ?thesis using 1 2 3 by (simp add: http_error_message_def)
qed

theorem execRequest_non_success_witness:
  "execRequest (respond_with not_found_response) (prepareRequest ''http://api'' ''/v1/decks'' GET)
     = Inl (Error ''HTTP 404: Not found'') \<and>
   sublist ''404'' ''HTTP 404: Not found'' \<and>
   sublist ''Not found'' ''HTTP 404: Not found'' \<and>
   execRequest (respond_with empty_error_response) (prepareRequest ''http://api'' ''/v1/decks'' GET)
     = Inl (Error ''HTTP 500: Internal Server Error'') \<and>
   sublist ''Internal Server Error'' ''HTTP 500: Internal Server Error''"
proof -
  have a: "\<not> ok not_found_response" by (simp add: ok_def not_found_response_def)
  have b: "\<not> ok empty_error_response" by (simp add: ok_def empty_error_response_def)
  have m1: "http_error_message not_found_response = ''HTTP 404: Not found''"
    by (simp add: http_error_message_def not_found_response_def decimal_404)
  have m2: "http_error_message empty_error_response = ''HTTP 500: Internal Server Error''"
    by (simp add: http_error_message_def empty_error_response_def decimal_500)
  have f1: "respond_with not_found_response (request_url this) (request_options this)
            = Inr not_found_response" for this
    by (simp add: respond_with_def)
  have f2: "respond_with empty_error_response (request_url this) (request_options this)
            = Inr empty_error_response" for this
    by (simp add: respond_with_def)
  have s1: "status not_found_response = 404" "text_body not_found_response = ''Not found''"
    by (simp_all add: not_found_response_def)
  have s2: "status empty_error_response = 500" "text_body empty_error_response = []"
    "statusText empty_error_response = ''Internal Server Error''"
    by (simp_all add: empty_error_response_def)
  have t1: "execRequest (respond_with not_found_response)
              (prepareRequest ''http://api'' ''/v1/decks'' GET)
            = Inl (Error ''HTTP 404: Not found'') \<and>
            sublist ''404'' ''HTTP 404: Not found'' \<and>
            sublist ''Not found'' ''HTTP 404: Not found''"
    using execRequest_non_success[of "respond_with not_found_response"
            "prepareRequest ''http://api'' ''/v1/decks'' GET" not_found_response, OF f1 a]
    by (simp add: m1 s1 decimal_404)
  have t2: "execRequest (respond_with empty_error_response)
              (prepareRequest ''http://api'' ''/v1/decks'' GET)
            = Inl (Error ''HTTP 500: Internal Server Error'') \<and>
            sublist ''Internal Server Error'' ''HTTP 500: Internal Server Error''"
    using execRequest_non_success[of "respond_with empty_error_response"
            "prepareRequest ''http://api'' ''/v1/decks'' GET" empty_error_response, OF f2 b]
    by (simp add: m2 s2 decimal_500)
  show ?thesis using t1 t2 by simp
qed

subsection \<open>Deck service and the request builder\<close>

text \<open>
  Claim C2 as stated fails for the service of src/unnamed/part_002, which calls \<open>fetch\<close>
  itself: on a 404 response its \<open>getAll\<close> fails with a fixed message, where the request
  builder's call for the same endpoint fails with the status and the response text.
\<close>

theorem direct_getAll_differs:
  "direct_getAll (respond_with not_found_response) (Some ''http://api'')
     = Inl (Error ''Failed to fetch decks'') \<and>
   execRequest (respond_with not_found_response) (prepareRequest ''http://api'' ''/v1/decks'' GET)
     = Inl (Error ''HTTP 404: Not found'') \<and>
   direct_getAll (respond_with not_found_response) (Some ''http://api'') \<noteq>
   execRequest (respond_with not_found_response) (prepareRequest ''http://api'' ''/v1/decks'' GET)"
proof -
  have a: "\<not> ok not_found_response" by (simp add: ok_def not_found_response_def)
  have m1: "http_error_message not_found_response = ''HTTP 404: Not found''"
    by (simp add: http_error_message_def not_found_response_def decimal_404)
  have 1: "direct_getAll (respond_with not_found_response) (Some ''http://api'')
           = Inl (Error ''Failed to fetch decks'')"
    using a by (simp add: direct_getAll_def respond_with_def)
  have 2: "execRequest (respond_with not_found_response)
             (prepareRequest ''http://api'' ''/v1/decks'' GET)
           = Inl (Error ''HTTP 404: Not found'')"
    using a by (simp add: execRequest_def respond_with_def m1)
  show ?thesis unfolding 1 2 by simp
qed

lemma execRequest_without_body:
  "\<not> (truthy (body (this_config this)) \<and> http_method (this_config this) \<noteq> GET) \<Longrightarrow>
   queryParams (this_config this) = None \<Longrightarrow>
   headers (this_config this) = [(''Content-Type'', ''application/json'')] \<Longrightarrow>
   execRequest fetch this =
     spec_service_call fetch (this_baseUrl this) (http_method (this_config this))
       (endpoint (this_config this)) None"
  by (auto simp: execRequest_def spec_service_call_def request_url_def request_options_def
        ok_def http_error_message_def Let_def split: sum.splits)

lemma execRequest_with_body:
  "truthy (body (this_config this)) \<Longrightarrow> http_method (this_config this) \<noteq> GET \<Longrightarrow>
   queryParams (this_config this) = None \<Longrightarrow>
   headers (this_config this) = [(''Content-Type'', ''application/json'')] \<Longrightarrow>
   execRequest fetch this =
     spec_service_call fetch (this_baseUrl this) (http_method (this_config this))
       (endpoint (this_config this)) (Some (body (this_config this)))"
  by (auto simp: execRequest_def spec_service_call_def request_url_def request_options_def
        ok_def http_error_message_def Let_def split: sum.splits)

text \<open>
  Claim C2, amended: for the deck service built with ManageService. Each of its five
  functions is one request builder execution, and that execution is the one call of the
  contract: the base URL followed by \<open>/v1/decks\<close> or \<open>/v1/decks/{id}\<close>, the method, the
  JSON content type header, the parameters serialised as JSON for create and update and
  no body otherwise, with the request builder's results and errors.
\<close>

theorem deckService_refines_contract:
  "deckService_getAll fetch env
     = spec_service_call fetch (API_URL env) GET ''/v1/decks'' None \<and>
   deckService_getById fetch env ident
     = spec_service_call fetch (API_URL env) GET (''/v1/decks/'' @ ident) None \<and>
   deckService_create fetch env params
     = spec_service_call fetch (API_URL env) POST ''/v1/decks'' (Some (JObj params)) \<and>
   deckService_update fetch env up
     = spec_service_call fetch (API_URL env) PUT (''/v1/decks/'' @ params_id up)
         (Some (JObj (params_rest up))) \<and>
   deckService_delete fetch env ident
     = spec_service_call fetch (API_URL env) DELETE (''/v1/decks/'' @ ident) None"
proof -
  have 1: "deckService_getAll fetch env
           = spec_service_call fetch (API_URL env) GET ''/v1/decks'' None"
    unfolding deckService_getAll_def
    by (subst execRequest_without_body)
       (simp_all add: prepareRequest_def new_RequestBuilder_def DECK_ENDPOINTS_BASE_def
          CONTENT_TYPES_JSON_def)
  have 2: "deckService_getById fetch env ident
           = spec_service_call fetch (API_URL env) GET (''/v1/decks/'' @ ident) None"
    unfolding deckService_getById_def
    by (subst execRequest_without_body)
       (simp_all add: prepareRequest_def new_RequestBuilder_def DECK_ENDPOINTS_DETAIL_def
          CONTENT_TYPES_JSON_def)
  have 3: "deckService_create fetch env params
           = spec_service_call fetch (API_URL env) POST ''/v1/decks'' (Some (JObj params))"
    unfolding deckService_create_def
    by (subst execRequest_with_body)
       (simp_all add: prepareRequest_def new_RequestBuilder_def setBody_def
          DECK_ENDPOINTS_BASE_def CONTENT_TYPES_JSON_def)
  have 4: "deckService_update fetch env up
           = spec_service_call fetch (API_URL env) PUT (''/v1/decks/'' @ params_id up)
               (Some (JObj (params_rest up)))"
    unfolding deckService_update_def
    by (subst execRequest_with_body)
       (simp_all add: prepareRequest_def new_RequestBuilder_def setBody_def
          DECK_ENDPOINTS_DETAIL_def CONTENT_TYPES_JSON_def)
  have 5: "deckService_delete fetch env ident
           = spec_service_call fetch (API_URL env) DELETE (''/v1/decks/'' @ ident) None"
    unfolding deckService_delete_def
    by (subst execRequest_without_body)
       (simp_all add: prepareRequest_def new_RequestBuilder_def DECK_ENDPOINTS_DETAIL_def
          CONTENT_TYPES_JSON_def)
  show ?thesis using 1 2 3 4 5 by blast
qed

theorem deckService_refines_contract_witness:
  "deckService_getAll (respond_with deck_response) None
     = Inr (JObj [(''id'', JStr ''d1''), (''name'', JStr ''Test''), (''count'', JNum 0)]) \<and>
   deckService_delete (respond_with not_found_response) (Some ''http://api'') ''d1''
     = Inl (Error ''HTTP 404: Not found'')"
proof -
  have 1: "deckService_getAll (respond_with deck_response) None
           = Inr (JObj [(''id'', JStr ''d1''), (''name'', JStr ''Test''), (''count'', JNum 0)])"
    using deckService_refines_contract[of "respond_with deck_response" None]
    by (simp add: spec_service_call_def respond_with_def deck_response_def)
  have 2: "deckService_delete (respond_with not_found_response) (Some ''http://api'') ''d1''
           = Inl (Error ''HTTP 404: Not found'')"
    using deckService_refines_contract[of "respond_with not_found_response" "Some ''http://api''"]
    by (simp add: spec_service_call_def respond_with_def not_found_response_def decimal_404)
  show ?thesis using 1 2 by simp
qed

subsection \<open>Query hook: the cache key\<close>

lemmas query_defaults =
  DEFAULT_RETRY_COUNT_def DEFAULT_STALE_TIME_def DEFAULT_GC_TIME_def
  DEFAULT_REFETCH_ON_WINDOW_FOCUS_def DEFAULT_REFETCH_INTERVAL_def

text \<open>
  Claim C4 as stated fails: a parameter object that has a key \<open>enabled\<close>, passed without
  a fourth argument, is taken for the options; the key is passed on unchanged and the
  service is called without argument.
\<close>

theorem useServiceQuery_params_taken_for_options:
  "useServiceQuery [JStr ''deck''] (JObj [(''id'', JStr ''d1''), (''enabled'', JBool True)])
     JUndefined
   = Inr \<lparr>queryKey = [JStr ''deck''], queryFn_argument = None, enabled = JBool True,
          retry = JNum 3, staleTime = JNum 300000, gcTime = JNum 600000,
          refetchOnWindowFocus = JBool True, refetchInterval = JBool False\<rparr>"
  by (simp add: useServiceQuery_def hasParams_def has_option_key_def or_empty_object_def
        nullish_def query_defaults)

text \<open>
  Claim C4, amended. When the parameters are not \<open>undefined\<close> and either an options
  argument is given too, or the parameters are an object, an array or a falsy value
  without any of the keys \<open>enabled\<close>, \<open>retry\<close>, \<open>staleTime\<close>, the key passed to the query
  library is the given key with the parameters appended, the service is called with the
  parameters, and the options are read from the options argument.
\<close>

theorem useServiceQuery_key_with_params:
  "params \<noteq> JUndefined \<Longrightarrow> options \<noteq> JUndefined \<or> has_option_key params = Inr False \<Longrightarrow>
   useServiceQuery key params options
   = Inr \<lparr>queryKey = key @ [params], queryFn_argument = Some params,
          enabled = nullish (option_value options ''enabled'') (JBool True),
          retry = nullish (option_value options ''retry'') DEFAULT_RETRY_COUNT,
          staleTime = nullish (option_value options ''staleTime'') DEFAULT_STALE_TIME,
          gcTime = nullish (option_value options ''gcTime'') DEFAULT_GC_TIME,
          refetchOnWindowFocus =
            nullish (option_value options ''refetchOnWindowFocus'') DEFAULT_REFETCH_ON_WINDOW_FOCUS,
          refetchInterval =
            nullish (option_value options ''refetchInterval'') DEFAULT_REFETCH_INTERVAL\<rparr>"
  by (auto simp: useServiceQuery_def hasParams_def Let_def)

theorem useServiceQuery_key_with_params_witness:
  "useServiceQuery [JStr ''deck''] (JObj [(''id'', JStr ''d1''), (''enabled'', JBool True)])
     (JObj [(''staleTime'', JNum 1000)])
   = Inr \<lparr>queryKey = [JStr ''deck'', JObj [(''id'', JStr ''d1''), (''enabled'', JBool True)]],
          queryFn_argument = Some (JObj [(''id'', JStr ''d1''), (''enabled'', JBool True)]),
          enabled = JBool True, retry = JNum 3, staleTime = JNum 1000, gcTime = JNum 600000,
          refetchOnWindowFocus = JBool True, refetchInterval = JBool False\<rparr> \<and>
   useServiceQuery [JStr ''deck''] (JObj [(''id'', JStr ''d1'')]) JUndefined
   = Inr \<lparr>queryKey = [JStr ''deck'', JObj [(''id'', JStr ''d1'')]],
          queryFn_argument = Some (JObj [(''id'', JStr ''d1'')]),
          enabled = JBool True, retry = JNum 3, staleTime = JNum 300000, gcTime = JNum 600000,
          refetchOnWindowFocus = JBool True, refetchInterval = JBool False\<rparr>"
proof -
  have k: "has_option_key (JObj [(''id'', JStr ''d1'')]) = Inr False"
    by (simp add: has_option_key_def or_empty_object_def)
  show ?thesis
    using useServiceQuery_key_with_params
            [of "JObj [(''id'', JStr ''d1''), (''enabled'', JBool True)]"
                "JObj [(''staleTime'', JNum 1000)]" "[JStr ''deck'']"]
          useServiceQuery_key_with_params
            [of "JObj [(''id'', JStr ''d1'')]" JUndefined "[JStr ''deck'']"]
          k
    by (simp add: nullish_def query_defaults)
qed

text \<open>
  A truthy primitive as parameters without an options argument reaches the \<open>in\<close> test
  and the hook throws.
\<close>

lemma useServiceQuery_primitive_params:
  "s \<noteq> [] \<Longrightarrow> \<exists>e. useServiceQuery key (JStr s) JUndefined = Inl e"
  by (simp add: useServiceQuery_def hasParams_def has_option_key_def or_empty_object_def)

subsection \<open>Notifications: timers and dismissal\<close>

lemma due_iff: "x \<in> due t tms \<longleftrightarrow> (\<exists>d. (x, d) \<in> set tms \<and> d \<le> t)"
  by (force simp: due_def image_iff)

lemma next_due_None: "next_due t tms = None \<Longrightarrow> due t tms = {}"
  by (auto simp: next_due_def due_def Let_def filter_empty_conv split: if_splits)

lemma next_due_Some: "next_due t tms = Some tm \<Longrightarrow> tm \<in> set tms \<and> snd tm \<le> t"
proof -
  assume a: "next_due t tms = Some tm"
  let ?ds = "filter (\<lambda>tm. snd tm \<le> t) tms"
  from a have ne: "?ds \<noteq> []" and tm: "tm = arg_min_list snd ?ds"
    by (auto simp: next_due_def Let_def split: if_splits)
  from arg_min_list_in[OF ne, of snd] tm have "tm \<in> set ?ds" by simp
  then show ?thesis by simp
qed

lemma due_filter: "due t (filter (\<lambda>tm. fst tm \<noteq> x) tms) = due t tms - {x}"
  by (auto simp: due_iff)

lemma due_append: "due t (xs @ ys) = due t xs \<union> due t ys"
  by (auto simp: due_iff)

lemma due_effect:
  "due t (Notification_effect n now) =
     (if 0 < (case n_duration n of None \<Rightarrow> 3000 | Some d \<Rightarrow> d) \<and>
         now + nat (case n_duration n of None \<Rightarrow> 3000 | Some d \<Rightarrow> d) \<le> t
      then {n_id n} else {})"
  by (auto simp: due_iff Notification_effect_def Let_def)

lemma advance_char:
  "notifications (advance t s) = filter (\<lambda>n. n_id n \<notin> due t (timers s)) (notifications s) \<and>
   timers (advance t s) = filter (\<lambda>tm. fst tm \<notin> due t (timers s)) (timers s)"
proof (induction t s rule: advance.induct)
  case (1 t s)
  show ?case
  proof (cases "next_due t (timers s)")
    case None
    then have "due t (timers s) = {}" by (rule next_due_None)
    with None show ?thesis by (simp add: advance.simps[of t s])
  next
    case (Some tm)
    from next_due_Some[OF Some] have x: "fst tm \<in> due t (timers s)"
      by (cases tm) (auto simp: due_iff)
    have adv: "advance t s = advance t (onClose (fst tm) s)"
      using Some by (simp add: advance.simps[of t s])
    have d: "due t (timers (onClose (fst tm) s)) = due t (timers s) - {fst tm}"
      by (simp add: onClose_def due_filter)
    from "1.IH"[OF Some] x show ?thesis
      unfolding adv d
      by (auto simp: onClose_def removeNotification_def intro!: filter_cong)
  qed
qed

lemma show_fresh_advance:
  assumes fresh: "decimal now @ ''-'' @ rnd \<notin> n_id ` set (notifications s)"
  shows "notifications (advance t (showNotification message type duration now rnd s)) =
         notifications (advance t s) @
         (if decimal now @ ''-'' @ rnd \<in> due t (timers s) \<union>
               due t (Notification_effect (new_notification message type duration now rnd) now)
          then [] else [new_notification message type duration now rnd])"
proof -
  let ?n = "new_notification message type duration now rnd"
  have idn: "n_id ?n = decimal now @ ''-'' @ rnd" by (simp add: new_notification_def)
  have fresh': "n_id n \<noteq> decimal now @ ''-'' @ rnd" if "n \<in> set (notifications s)" for n
    using fresh that by force
  have "n_id n \<notin> due t (timers s) \<union> due t (Notification_effect ?n now) \<longleftrightarrow> n_id n \<notin> due t (timers s)"
    if "n \<in> set (notifications s)" for n
    using fresh'[OF that] by (auto simp: due_effect idn)
  then have old: "filter (\<lambda>n. n_id n \<notin> due t (timers s) \<union> due t (Notification_effect ?n now)) (notifications s)
           = filter (\<lambda>n. n_id n \<notin> due t (timers s)) (notifications s)"
    by (intro filter_cong) auto
  show ?thesis
    using old by (simp add: advance_char showNotification_def Let_def idn due_append)
qed

lemma onClose_fresh:
  assumes "ident \<notin> n_id ` set (notifications s)"
      and "ident \<notin> fst ` set (timers s)"
      and "n_id n = ident"
      and "\<forall>tm \<in> set tms. fst tm = ident"
  shows "onClose ident \<lparr>notifications = notifications s @ [n], timers = timers s @ tms\<rparr> = s"
proof -
  have "n_id n' \<noteq> ident" if "n' \<in> set (notifications s)" for n'
    using assms(1) that by force
  then have 1: "filter (\<lambda>n. n_id n \<noteq> ident) (notifications s) = notifications s"
    by (simp add: filter_id_conv)
  have "fst tm \<noteq> ident" if "tm \<in> set (timers s)" for tm
    using assms(2) that by force
  then have 2: "filter (\<lambda>tm. fst tm \<noteq> ident) (timers s) = timers s"
    by (simp add: filter_id_conv)
  have 3: "filter (\<lambda>tm. fst tm \<noteq> ident) tms = []"
    using assms(4) by (simp add: filter_empty_conv)
  show ?thesis
    using assms(3) by (simp add: onClose_def removeNotification_def 1 2 3)
qed

lemma onClose_show:
  assumes "decimal now @ ''-'' @ rnd \<notin> n_id ` set (notifications s)"
      and "decimal now @ ''-'' @ rnd \<notin> fst ` set (timers s)"
  shows "onClose (decimal now @ ''-'' @ rnd) (showNotification message type duration now rnd s) = s"
  unfolding showNotification_def Let_def
  by (rule onClose_fresh[OF assms])
     (simp_all add: new_notification_def Notification_effect_def Let_def)

text \<open>
  Claim C6. A notification is inserted at time \<open>now\<close> with duration \<open>d\<close>, its id not in use.
  If \<open>d\<close> is positive a timeout with deadline \<open>now + d\<close> is set; before the deadline the
  notification is in the list, and from the deadline on the list is what it would be
  without it: the expiry removes that notification and no other. If \<open>d\<close> is zero or
  negative no timeout is set and the notification stays at every time. Closing it removes
  it at once and clears its timeout: the provider is as before the insertion, so nothing
  more happens at the deadline.
\<close>

theorem notification_lifecycle:
  assumes "decimal now @ ''-'' @ rnd \<notin> n_id ` set (notifications s)"
      and "decimal now @ ''-'' @ rnd \<notin> fst ` set (timers s)"
  shows "(0 < d \<longrightarrow>
            timers (showNotification message type (Some d) now rnd s)
              = timers s @ [(decimal now @ ''-'' @ rnd, now + nat d)] \<and>
            (t < now + nat d \<longrightarrow>
               notifications (advance t (showNotification message type (Some d) now rnd s))
                 = notifications (advance t s) @ [new_notification message type (Some d) now rnd]) \<and>
            (now + nat d \<le> t \<longrightarrow>
               notifications (advance t (showNotification message type (Some d) now rnd s))
                 = notifications (advance t s))) \<and>
         (d \<le> 0 \<longrightarrow>
            timers (showNotification message type (Some d) now rnd s) = timers s \<and>
            notifications (advance t (showNotification message type (Some d) now rnd s))
              = notifications (advance t s) @ [new_notification message type (Some d) now rnd]) \<and>
         onClose (decimal now @ ''-'' @ rnd) (showNotification message type (Some d) now rnd s) = s \<and>
         advance t (onClose (decimal now @ ''-'' @ rnd) (showNotification message type (Some d) now rnd s))
           = advance t s"
proof -
  let ?n = "new_notification message type (Some d) now rnd"
  have nd: "decimal now @ ''-'' @ rnd \<notin> due t (timers s)"
    using assms(2) by (force simp: due_iff)
  have idn: "n_id ?n = decimal now @ ''-'' @ rnd" "n_duration ?n = Some d"
    by (simp_all add: new_notification_def)
  have a: "0 < d \<Longrightarrow> timers (showNotification message type (Some d) now rnd s)
              = timers s @ [(decimal now @ ''-'' @ rnd, now + nat d)]"
    by (simp add: showNotification_def Let_def Notification_effect_def new_notification_def)
  have b: "0 < d \<Longrightarrow> t < now + nat d \<Longrightarrow>
           notifications (advance t (showNotification message type (Some d) now rnd s))
             = notifications (advance t s) @ [?n]"
    using nd by (simp add: show_fresh_advance[OF assms(1)] due_effect idn)
  have c: "0 < d \<Longrightarrow> now + nat d \<le> t \<Longrightarrow>
           notifications (advance t (showNotification message type (Some d) now rnd s))
             = notifications (advance t s)"
    by (simp add: show_fresh_advance[OF assms(1)] due_effect idn)
  have e: "d \<le> 0 \<Longrightarrow> timers (showNotification message type (Some d) now rnd s) = timers s"
    by (simp add: showNotification_def Let_def Notification_effect_def new_notification_def)
  have f: "d \<le> 0 \<Longrightarrow> notifications (advance t (showNotification message type (Some d) now rnd s))
              = notifications (advance t s) @ [?n]"
    using nd by (simp add: show_fresh_advance[OF assms(1)] due_effect idn)
  show ?thesis using a b c e f onClose_show[OF assms] by simp
qed


lemma decimal_1000: "decimal 1000 = ''1000''"
  by code_simp

lemma advance_empty: "advance t empty_provider = empty_provider"
  by (subst advance.simps) (simp add: empty_provider_def next_due_def)

theorem notification_lifecycle_witness:
  "notifications (advance 1100 (showNotification ''ok'' (Some TSuccess) (Some 100) 1000 ''0.5'' empty_provider))
     = [] \<and>
   notifications (advance 1099 (showNotification ''ok'' (Some TSuccess) (Some 100) 1000 ''0.5'' empty_provider))
     = [\<lparr>n_id = ''1000-0.5'', n_type = TSuccess, n_message = ''ok'', n_duration = Some 100\<rparr>] \<and>
   notifications (advance 999999 (showNotification ''ok'' (Some TSuccess) (Some 0) 1000 ''0.5'' empty_provider))
     = [\<lparr>n_id = ''1000-0.5'', n_type = TSuccess, n_message = ''ok'', n_duration = Some 0\<rparr>] \<and>
   onClose ''1000-0.5'' (showNotification ''ok'' (Some TSuccess) (Some 100) 1000 ''0.5'' empty_provider)
     = empty_provider"
proof -
  have h1: "decimal 1000 @ ''-'' @ ''0.5'' \<notin> n_id ` set (notifications empty_provider)"
    by (simp add: empty_provider_def)
  have h2: "decimal 1000 @ ''-'' @ ''0.5'' \<notin> fst ` set (timers empty_provider)"
    by (simp add: empty_provider_def)
  have e: "notifications empty_provider = []" by (simp add: empty_provider_def)
  show ?thesis
    using notification_lifecycle[OF h1 h2, of 100 "''ok''" "Some TSuccess" 1100]
          notification_lifecycle[OF h1 h2, of 100 "''ok''" "Some TSuccess" 1099]
          notification_lifecycle[OF h1 h2, of 0 "''ok''" "Some TSuccess" 999999]
    by (simp add: advance_empty e new_notification_def decimal_1000)
qed

subsection \<open>Notifications: defaults\<close>

text \<open>
  Claim C10. \<open>showNotification\<close> called without type inserts a notification of type info,
  called without duration one of duration 3000, and called without both one of type info
  with duration 3000 and a timeout 3000 ms after the insertion. Each of the wrappers success, error, info and warning,
  called without duration, inserts a notification of its type with duration 3000 and a
  timeout 3000 ms after the insertion; with an id not in use, the notification is in the
  list before that time and gone from then on.
\<close>

theorem notification_defaults:
  assumes "decimal now @ ''-'' @ rnd \<notin> n_id ` set (notifications s)"
      and "decimal now @ ''-'' @ rnd \<notin> fst ` set (timers s)"
      and "wrapper \<in> {(notify_success, TSuccess), (notify_error, TError),
                       (notify_info, TInfo), (notify_warning, TWarning)}"
  shows "n_type (last (notifications (showNotification message None duration now rnd s))) = TInfo \<and>
         n_duration (last (notifications (showNotification message type None now rnd s)))
           = Some 3000 \<and>
         showNotification message None None now rnd s
           = \<lparr>notifications = notifications s @
                 [\<lparr>n_id = decimal now @ ''-'' @ rnd, n_type = TInfo, n_message = message,
                   n_duration = Some 3000\<rparr>],
              timers = timers s @ [(decimal now @ ''-'' @ rnd, now + 3000)]\<rparr> \<and>
         fst wrapper message None now rnd s
           = \<lparr>notifications = notifications s @
                 [\<lparr>n_id = decimal now @ ''-'' @ rnd, n_type = snd wrapper, n_message = message,
                   n_duration = Some 3000\<rparr>],
              timers = timers s @ [(decimal now @ ''-'' @ rnd, now + 3000)]\<rparr> \<and>
         (t < now + 3000 \<longrightarrow>
            notifications (advance t (fst wrapper message None now rnd s))
              = notifications (advance t s) @
                  [\<lparr>n_id = decimal now @ ''-'' @ rnd, n_type = snd wrapper, n_message = message,
                    n_duration = Some 3000\<rparr>]) \<and>
         (now + 3000 \<le> t \<longrightarrow>
            notifications (advance t (fst wrapper message None now rnd s))
              = notifications (advance t s))"
proof -
  have w: "fst wrapper message None now rnd s
           = showNotification message (Some (snd wrapper)) None now rnd s"
    using assms(3)
    by (auto simp: notify_success_def notify_error_def notify_info_def notify_warning_def)
  have nd: "decimal now @ ''-'' @ rnd \<notin> due t (timers s)"
    using assms(2) by (force simp: due_iff)
  have n: "new_notification message ty None now rnd
           = \<lparr>n_id = decimal now @ ''-'' @ rnd,
              n_type = (case ty of None \<Rightarrow> TInfo | Some t \<Rightarrow> t), n_message = message,
              n_duration = Some 3000\<rparr>" for ty
    by (simp add: new_notification_def)
  have sh: "showNotification message ty None now rnd s
            = \<lparr>notifications = notifications s @ [new_notification message ty None now rnd],
               timers = timers s @ [(decimal now @ ''-'' @ rnd, now + 3000)]\<rparr>" for ty
    by (simp add: showNotification_def Let_def Notification_effect_def n)
  have b: "t < now + 3000 \<Longrightarrow>
           notifications (advance t (showNotification message (Some (snd wrapper)) None now rnd s))
             = notifications (advance t s) @ [new_notification message (Some (snd wrapper)) None now rnd]"
    using nd by (simp add: show_fresh_advance[OF assms(1)] due_effect n)
  have c: "now + 3000 \<le> t \<Longrightarrow>
           notifications (advance t (showNotification message (Some (snd wrapper)) None now rnd s))
             = notifications (advance t s)"
    by (simp add: show_fresh_advance[OF assms(1)] due_effect n)
  have d1: "n_type (last (notifications (showNotification message None duration now rnd s))) = TInfo"
    by (simp add: showNotification_def Let_def new_notification_def)
  have d2: "n_duration (last (notifications (showNotification message type None now rnd s)))
            = Some 3000"
    by (simp add: showNotification_def Let_def new_notification_def)
  show ?thesis
    using b c d1 d2 by (simp add: w sh n)
qed

theorem notification_defaults_witness:
  "showNotification ''hello'' None None 1000 ''0.5'' empty_provider
     = \<lparr>notifications = [\<lparr>n_id = ''1000-0.5'', n_type = TInfo, n_message = ''hello'',
                           n_duration = Some 3000\<rparr>],
        timers = [(''1000-0.5'', 4000)]\<rparr> \<and>
   notify_error ''hello'' None 1000 ''0.5'' empty_provider
     = \<lparr>notifications = [\<lparr>n_id = ''1000-0.5'', n_type = TError, n_message = ''hello'',
                           n_duration = Some 3000\<rparr>],
        timers = [(''1000-0.5'', 4000)]\<rparr> \<and>
   notifications (advance 3999 (notify_error ''hello'' None 1000 ''0.5'' empty_provider))
     = [\<lparr>n_id = ''1000-0.5'', n_type = TError, n_message = ''hello'', n_duration = Some 3000\<rparr>] \<and>
   notifications (advance 4000 (notify_error ''hello'' None 1000 ''0.5'' empty_provider)) = []"
proof -
  have h1: "decimal 1000 @ ''-'' @ ''0.5'' \<notin> n_id ` set (notifications empty_provider)"
    by (simp add: empty_provider_def)
  have h2: "decimal 1000 @ ''-'' @ ''0.5'' \<notin> fst ` set (timers empty_provider)"
    by (simp add: empty_provider_def)
  have h3: "(notify_error, TError) \<in> {(notify_success, TSuccess), (notify_error, TError),
                       (notify_info, TInfo), (notify_warning, TWarning)}"
    by simp
  have e: "notifications empty_provider = []" "timers empty_provider = []"
    by (simp_all add: empty_provider_def)
  note A = notification_defaults[OF h1 h2 h3, where message = "''hello''" and t = 3999]
  note B = notification_defaults[OF h1 h2 h3, where message = "''hello''" and t = 4000]
  have a1: "showNotification ''hello'' None None 1000 ''0.5'' empty_provider
     = \<lparr>notifications = [\<lparr>n_id = ''1000-0.5'', n_type = TInfo, n_message = ''hello'',
                           n_duration = Some 3000\<rparr>],
        timers = [(''1000-0.5'', 4000)]\<rparr>"
    using A[THEN conjunct2, THEN conjunct2, THEN conjunct1] by (simp add: e decimal_1000)
  have a2: "notify_error ''hello'' None 1000 ''0.5'' empty_provider
     = \<lparr>notifications = [\<lparr>n_id = ''1000-0.5'', n_type = TError, n_message = ''hello'',
                           n_duration = Some 3000\<rparr>],
        timers = [(''1000-0.5'', 4000)]\<rparr>"
    using A[THEN conjunct2, THEN conjunct2, THEN conjunct2, THEN conjunct1]
    by (simp add: e decimal_1000)
  have a3: "notifications (advance 3999 (notify_error ''hello'' None 1000 ''0.5'' empty_provider))
     = [\<lparr>n_id = ''1000-0.5'', n_type = TError, n_message = ''hello'', n_duration = Some 3000\<rparr>]"
    using A[THEN conjunct2, THEN conjunct2, THEN conjunct2, THEN conjunct2, THEN conjunct1]
    by (simp add: e decimal_1000 advance_empty)
  have a4: "notifications (advance 4000 (notify_error ''hello'' None 1000 ''0.5'' empty_provider)) = []"
    using B[THEN conjunct2, THEN conjunct2, THEN conjunct2, THEN conjunct2, THEN conjunct2]
    by (simp add: e advance_empty)
  from a1 a2 a3 a4 show ?thesis by blast
qed

subsection \<open>Mutation hook\<close>

text \<open>
  Claim C7. After \<open>fetch()\<close> has resolved the projection reads isLoading false, isLoaded
  true and no error; after it has rejected it reads isLoading false, isLoaded false and
  the error; while it runs isLoading is true; \<open>reset()\<close> from either terminal state gives
  the idle state, which reads isLoaded false and no error.
\<close>

theorem useService_state_machine:
  "useService (mutation_resolved d (mutateAsync m))
     = \<lparr>isLoading = False, isLoaded = True, error = None, result = d\<rparr> \<and>
   useService (mutation_rejected e (mutateAsync m))
     = \<lparr>isLoading = False, isLoaded = False, error = Some e, result = JUndefined\<rparr> \<and>
   isLoading (useService (mutateAsync m)) \<and>
   mutation_reset (mutation_resolved d (mutateAsync m)) = mutation_idle \<and>
   mutation_reset (mutation_rejected e (mutateAsync m)) = mutation_idle \<and>
   useService mutation_idle
     = \<lparr>isLoading = False, isLoaded = False, error = None, result = JUndefined\<rparr>"
  by (simp add: useService_def mutation_resolved_def mutation_rejected_def mutateAsync_def
        mutation_reset_def mutation_idle_def mutation_isPending_def mutation_isSuccess_def)

end
